theory Spec2Isabelle
  imports Complex_Main "HOL-Library.Sublist"
begin

section \<open>The dashboard query layer of \<^verbatim>\<open>src/app/lib/data.ts\<close>\<close>

text \<open>
  The module holds seven asynchronous readers over a hosted query client. The client, the
  currency formatter and the row type declarations live outside \<^verbatim>\<open>data.ts\<close>; the
  readers are modelled with the client's answers and the formatter as parameters.

  Conventions of the embedding:
  \<^item> a JavaScript \<^verbatim>\<open>number\<close> that holds a database integer (amounts in minor units,
    counts, page numbers, offsets) is an \<open>int\<close>; the doubles of the source agree with it on
    the safe-integer range. The two quotients of the source (\<^verbatim>\<open>amount / 100\<close>,
    \<^verbatim>\<open>count / ITEMS_PER_PAGE\<close>) are taken in \<open>rat\<close>;
  \<^item> a value that may be \<^verbatim>\<open>null\<close> or \<^verbatim>\<open>undefined\<close> is an \<open>option\<close>;
  \<^item> an awaited client call either rejects (the promise throws) or resolves to the
    client's answer object, which carries \<^verbatim>\<open>data\<close> (or \<^verbatim>\<open>count\<close>) and
    \<^verbatim>\<open>error\<close>;
  \<^item> a reader returns \<open>Inl\<close> of what it throws or \<open>Inr\<close> of what it returns;
  \<^item> \<^verbatim>\<open>console.log\<close>, \<^verbatim>\<open>console.error\<close> and the artificial delay of
    \<^verbatim>\<open>fetchRevenue\<close> have no effect on the returned value and are left out.
\<close>

subsection \<open>Errors and client answers\<close>

text \<open>The error value of a client answer (a \<^verbatim>\<open>PostgrestError\<close>), by its message.\<close>

datatype backend_error = BackendError string

text \<open>
  What a reader can throw: \<^verbatim>\<open>new Error(message)\<close>, or the \<^verbatim>\<open>TypeError\<close> of the
  runtime when a \<^verbatim>\<open>null\<close> is iterated or dereferenced.
\<close>

datatype error = Error string | TypeError

datatype 'a awaited = Rejected error | Resolved 'a

record base_response =
  error :: "backend_error option"

record 'a response = base_response +
  data :: "'a option"

record count_response = base_response +
  count :: "int option"

subsection \<open>JavaScript values used by the readers\<close>

text \<open>
  \<^verbatim>\<open>a ?? b\<close>: the left operand unless it is \<^verbatim>\<open>null\<close> or \<^verbatim>\<open>undefined\<close>.
\<close>

definition nullish :: "'a option \<Rightarrow> 'a \<Rightarrow> 'a" where
  "nullish a b = (case a of None \<Rightarrow> b | Some v \<Rightarrow> v)"

text \<open>
  The truth value of a string that may be missing, as \<^verbatim>\<open>customerId && ...\<close> reads it:
  \<^verbatim>\<open>null\<close>, \<^verbatim>\<open>undefined\<close> and the empty string are false.
\<close>

definition truthy :: "string option \<Rightarrow> bool" where
  "truthy v = (case v of None \<Rightarrow> False | Some s \<Rightarrow> s \<noteq> [])"

text \<open>
  A joined relation arrives as \<^verbatim>\<open>null\<close>, as one object or as an array of objects;
  \<^verbatim>\<open>Array.isArray(x) ? x[0] : x\<close> reads the related record, and \<^verbatim>\<open>x[0]\<close> of an
  empty array is \<^verbatim>\<open>undefined\<close>.
\<close>

datatype 'a joined = JNull | JObject 'a | JArray "'a list"

fun first_related :: "'a joined \<Rightarrow> 'a option" where
  "first_related JNull = None"
| "first_related (JObject c) = Some c"
| "first_related (JArray []) = None"
| "first_related (JArray (c # cs)) = Some c"

text \<open>
  \<^verbatim>\<open>String.prototype.toLowerCase\<close> on the letters A to Z; \<open>string\<close> is a list of
  bytes, and the model leaves every other character as it is.
\<close>

definition toLowerCase_char :: "char \<Rightarrow> char" where
  "toLowerCase_char c =
     (case map_of (zip ''ABCDEFGHIJKLMNOPQRSTUVWXYZ'' ''abcdefghijklmnopqrstuvwxyz'') c of
        None \<Rightarrow> c
      | Some l \<Rightarrow> l)"

definition toLowerCase :: "string \<Rightarrow> string" where
  "toLowerCase s = map toLowerCase_char s"

text \<open>
  \<^verbatim>\<open>s.includes(q)\<close>: \<open>q\<close> occurs in \<open>s\<close> as a run of consecutive characters.
\<close>

fun startsWith :: "string \<Rightarrow> string \<Rightarrow> bool" where
  "startsWith s [] = True"
| "startsWith [] (c # cs) = False"
| "startsWith (x # xs) (c # cs) = (x = c \<and> startsWith xs cs)"

fun includes' :: "string \<Rightarrow> string \<Rightarrow> bool" where
  "includes' [] q = (q = [])"
| "includes' (x # xs) q = (startsWith (x # xs) q \<or> includes' xs q)"

text \<open>
  \<^verbatim>\<open>Number.prototype.toString\<close> on an integer: its decimal digits, after a minus sign
  when it is negative (the source's doubles print so below \<open>10\<^sup>2\<^sup>1\<close>).
\<close>

definition digit_char :: "nat \<Rightarrow> char" where
  "digit_char d = ''0123456789'' ! d"

function nat_toString :: "nat \<Rightarrow> string" where
  "nat_toString n =
     (if n < 10 then [digit_char n] else nat_toString (n div 10) @ [digit_char (n mod 10)])"
  by pat_completeness auto
termination
  by (relation "measure (\<lambda>n. n)") auto

declare nat_toString.simps [simp del]

definition toString :: "int \<Rightarrow> string" where
  "toString i = (if i < 0 then CHR ''-'' # nat_toString (nat (- i)) else nat_toString (nat i))"

subsection \<open>Pass-through readers: \<^verbatim>\<open>fetchRevenue\<close> and \<^verbatim>\<open>fetchCustomers\<close>\<close>

text \<open>
  \<^verbatim>\<open>fetchRevenue\<close> wraps the whole body in \<^verbatim>\<open>try\<close>: a rejected call and the error
  thrown on an error value both reach the \<^verbatim>\<open>catch\<close>, which throws the same generic
  message. The rows are returned as they came.
\<close>

definition fetchRevenue :: "'r list response awaited \<Rightarrow> error + 'r list option" where
  "fetchRevenue answer =
     (case answer of
        Rejected e \<Rightarrow> Inl (Error ''Failed to fetch revenue data.'')
      | Resolved r \<Rightarrow>
          (if error r \<noteq> None then Inl (Error ''Failed to fetch revenue data.'')
           else Inr (data r)))"

definition fetchCustomers :: "'c list response awaited \<Rightarrow> error + 'c list option" where
  "fetchCustomers answer =
     (case answer of
        Rejected e \<Rightarrow> Inl e
      | Resolved r \<Rightarrow>
          (if error r \<noteq> None then Inl (Error ''Failed to fetch all customers.'')
           else Inr (data r)))"

subsection \<open>Latest invoices: \<^verbatim>\<open>fetchLatestInvoices\<close>\<close>

text \<open>
  The selected columns are \<^verbatim>\<open>id, amount, date, customer_id(id, name, image_url, email)\<close>.
  The field \<open>id'\<close> stands for the column \<^verbatim>\<open>id\<close>. The columns of the joined customer
  may be \<^verbatim>\<open>null\<close>: the source guards each of them.
\<close>

record customer_rel =
  id' :: "string option"
  name :: "string option"
  image_url :: "string option"
  email :: "string option"

record latest_invoice_raw =
  id' :: string
  amount :: int
  date :: string
  customer_id :: "customer_rel joined"

record latest_invoice =
  id' :: string
  amount :: string
  name :: string
  image_url :: string
  email :: string

text \<open>\<^verbatim>\<open>customer?.id\<close> of an invoice, after the relation is read.\<close>

definition customerId_of :: "latest_invoice_raw \<Rightarrow> string option" where
  "customerId_of invoice =
     (case first_related (latest_invoice_raw.customer_id invoice) of
        None \<Rightarrow> None
      | Some customer \<Rightarrow> customer_rel.id' customer)"

text \<open>
  The \<^verbatim>\<open>for\<close> loop over \<^verbatim>\<open>data\<close>, with the set \<^verbatim>\<open>seen\<close> and the array
  \<^verbatim>\<open>latestByCustomer\<close> as its state; \<^verbatim>\<open>push\<close> appends.
\<close>

fun latest_loop ::
  "string option set \<Rightarrow> latest_invoice_raw list \<Rightarrow> latest_invoice_raw list \<Rightarrow> latest_invoice_raw list" where
  "latest_loop seen latestByCustomer [] = latestByCustomer"
| "latest_loop seen latestByCustomer (invoice # rest) =
     (let customerId = customerId_of invoice in
      if truthy customerId \<and> customerId \<notin> seen
      then latest_loop (insert customerId seen) (latestByCustomer @ [invoice]) rest
      else latest_loop seen latestByCustomer rest)"

text \<open>The callback of the final \<^verbatim>\<open>map\<close>; \<open>formatCurrency\<close> is the imported formatter.\<close>

definition to_latest_invoice :: "(int \<Rightarrow> string) \<Rightarrow> latest_invoice_raw \<Rightarrow> latest_invoice" where
  "to_latest_invoice formatCurrency invoice =
     (let customer = first_related (latest_invoice_raw.customer_id invoice) in
      \<lparr> latest_invoice.id' = latest_invoice_raw.id' invoice,
        latest_invoice.amount = formatCurrency (latest_invoice_raw.amount invoice),
        latest_invoice.name = nullish (Option.bind customer customer_rel.name) [],
        latest_invoice.image_url = nullish (Option.bind customer customer_rel.image_url) [],
        latest_invoice.email = nullish (Option.bind customer customer_rel.email) [] \<rparr>)"

text \<open>
  Iterating \<^verbatim>\<open>data\<close> when it is \<^verbatim>\<open>null\<close> throws a \<^verbatim>\<open>TypeError\<close>.
\<close>

definition fetchLatestInvoices ::
  "(int \<Rightarrow> string) \<Rightarrow> latest_invoice_raw list response awaited \<Rightarrow> error + latest_invoice list" where
  "fetchLatestInvoices formatCurrency answer =
     (case answer of
        Rejected e \<Rightarrow> Inl e
      | Resolved r \<Rightarrow>
          (if error r \<noteq> None then Inl (Error ''Failed to fetch the latest invoices.'')
           else
             (case data r of
                None \<Rightarrow> Inl TypeError
              | Some rows \<Rightarrow>
                  Inr (map (to_latest_invoice formatCurrency) (latest_loop {} [] rows)))))"

subsection \<open>Page count: \<^verbatim>\<open>fetchInvoicesPages\<close>\<close>

definition ITEMS_PER_PAGE :: int where
  "ITEMS_PER_PAGE = 6"

text \<open>The template literal \<^verbatim>\<open>`%${query}%`\<close> handed to \<^verbatim>\<open>ilike\<close>.\<close>

definition ilike_pattern :: "string \<Rightarrow> string" where
  "ilike_pattern query = ''%'' @ query @ ''%''"

text \<open>
  \<^verbatim>\<open>fetchInvoicesPages(query)\<close>: the client is asked for the exact head count of the
  invoices whose customer name matches the pattern; no \<^verbatim>\<open>try\<close> surrounds the
  \<^verbatim>\<open>await\<close>, so a rejection leaves the reader as it is. The quotient
  \<^verbatim>\<open>(count ?? 0) / ITEMS_PER_PAGE\<close> is taken in \<open>rat\<close>: the double of the source is
  the quotient rounded to the nearest double, and for a count in the safe-integer range
  the rounding is too small to reach an integer, so \<^verbatim>\<open>Math.ceil\<close> gives the same
  value on both.
\<close>

definition fetchInvoicesPages :: "(string \<Rightarrow> count_response awaited) \<Rightarrow> string \<Rightarrow> error + int" where
  "fetchInvoicesPages client query =
     (case client (ilike_pattern query) of
        Rejected e \<Rightarrow> Inl e
      | Resolved r \<Rightarrow>
          (if error r \<noteq> None then Inl (Error ''Failed to fetch total number of invoices.'')
           else
             let totalPages = \<lceil>(of_int (case count r of None \<Rightarrow> 0 | Some c \<Rightarrow> c) :: rat) / of_int ITEMS_PER_PAGE\<rceil>
             in Inr totalPages))"

subsection \<open>Card summary: \<^verbatim>\<open>fetchCardData\<close>\<close>

record card_row =
  amount :: int
  status :: string

record card_data =
  totalPaidInvoices :: int
  totalPendingInvoices :: int
  numberOfInvoices :: int
  numberOfCustomers :: int

text \<open>
  The \<^verbatim>\<open>for\<close> loop over the invoices; its state is the pair of running totals
  \<^verbatim>\<open>(totalPaidInvoices, totalPendingInvoices)\<close>.
\<close>

fun card_loop :: "int \<times> int \<Rightarrow> card_row list \<Rightarrow> int \<times> int" where
  "card_loop (totalPaid, totalPending) [] = (totalPaid, totalPending)"
| "card_loop (totalPaid, totalPending) (invoice # rest) =
     (if card_row.status invoice = ''paid''
      then card_loop (totalPaid + card_row.amount invoice, totalPending) rest
      else if card_row.status invoice = ''pending''
      then card_loop (totalPaid, totalPending + card_row.amount invoice) rest
      else card_loop (totalPaid, totalPending) rest)"

text \<open>
  Two reads: the invoices, then the head count of the customers. The second answer is
  looked at only when the first read did not throw.
\<close>

definition fetchCardData ::
  "card_row list response awaited \<Rightarrow> count_response awaited \<Rightarrow> error + card_data" where
  "fetchCardData invoicesAnswer customersAnswer =
     (case invoicesAnswer of
        Rejected e \<Rightarrow> Inl e
      | Resolved r \<Rightarrow>
          (if error r \<noteq> None then Inl (Error ''Failed to fetch card data.'')
           else
             let (totals, numberOfInvoices) =
                   (case data r of
                      None \<Rightarrow> ((0, 0), 0)
                    | Some rows \<Rightarrow> (card_loop (0, 0) rows, int (length rows)))
             in
               (case customersAnswer of
                  Rejected e \<Rightarrow> Inl e
                | Resolved c \<Rightarrow>
                    (if error c \<noteq> None then Inl (Error ''Failed to fetch customer count.'')
                     else
                       Inr \<lparr> totalPaidInvoices = fst totals,
                             totalPendingInvoices = snd totals,
                             numberOfInvoices = numberOfInvoices,
                             numberOfCustomers = nullish (count c) 0 \<rparr>))))"

subsection \<open>Filtered invoices: \<^verbatim>\<open>fetchFilteredInvoices\<close>\<close>

text \<open>
  The selected columns are \<^verbatim>\<open>id, amount, date, status, customers(name, email, image_url)\<close>.
  What varies in the request is the pattern given to \<^verbatim>\<open>ilike\<close> and the two bounds given
  to \<^verbatim>\<open>range\<close>.
\<close>

record customer_fields =
  name :: "string option"
  email :: "string option"
  image_url :: "string option"

record invoice_joined =
  id' :: string
  amount :: int
  date :: string
  status :: string
  customers :: "customer_fields joined"

record invoices_table =
  id' :: string
  amount :: int
  date :: string
  status :: string
  name :: string
  email :: string
  image_url :: string

record invoices_request =
  ilike :: string
  range_from :: int
  range_to :: int

text \<open>The callback of \<^verbatim>\<open>map\<close>: the joined customer is flattened into the row.\<close>

definition flatten_invoice :: "invoice_joined \<Rightarrow> invoices_table" where
  "flatten_invoice invoice =
     (let customer = first_related (customers invoice) in
      \<lparr> invoices_table.id' = invoice_joined.id' invoice,
        invoices_table.amount = invoice_joined.amount invoice,
        invoices_table.date = invoice_joined.date invoice,
        invoices_table.status = invoice_joined.status invoice,
        invoices_table.name = nullish (Option.bind customer customer_fields.name) [],
        invoices_table.email = nullish (Option.bind customer customer_fields.email) [],
        invoices_table.image_url = nullish (Option.bind customer customer_fields.image_url) [] \<rparr>)"

text \<open>
  The callback of \<^verbatim>\<open>filter\<close>, disjunct by disjunct as the source writes them. The date
  is a string, so its \<^verbatim>\<open>toString()\<close> is the date itself.
\<close>

definition matches_query :: "string \<Rightarrow> invoices_table \<Rightarrow> bool" where
  "matches_query query invoice \<longleftrightarrow>
     includes' (toLowerCase (invoices_table.email invoice)) (toLowerCase query) \<or>
     includes' (toString (invoices_table.amount invoice)) query \<or>
     includes' (invoices_table.date invoice) query \<or>
     includes' (toLowerCase (invoices_table.status invoice)) query \<or>
     includes' (toLowerCase (invoices_table.name invoice)) query"

definition fetchFilteredInvoices ::
  "(invoices_request \<Rightarrow> invoice_joined list response awaited) \<Rightarrow> string \<Rightarrow> int
     \<Rightarrow> error + invoices_table list" where
  "fetchFilteredInvoices client query currentPage =
     (let from = (currentPage - 1) * ITEMS_PER_PAGE;
          to = from + ITEMS_PER_PAGE - 1
      in
        case client \<lparr> ilike = ilike_pattern query, range_from = from, range_to = to \<rparr> of
          Rejected e \<Rightarrow> Inl e
        | Resolved r \<Rightarrow>
            (if error r \<noteq> None then Inl (Error ''Failed to fetch invoices.'')
             else Inr (filter (matches_query query) (map flatten_invoice (nullish (data r) [])))))"

subsection \<open>Invoice by id: \<^verbatim>\<open>fetchInvoiceById\<close>\<close>

text \<open>
  The selected columns are \<^verbatim>\<open>id, customer_id, amount, status\<close>. The returned record is
  the row with its amount replaced by the quotient \<^verbatim>\<open>data.amount / 100\<close>, taken in
  \<open>rat\<close>; the double of the source is this quotient rounded to the nearest double, and
  is the quotient itself wherever that is a whole number.
\<close>

record invoice_form_raw =
  id' :: string
  customer_id :: string
  amount :: int
  status :: string

record invoice_form =
  id' :: string
  customer_id :: string
  amount :: rat
  status :: string

text \<open>
  Only \<^verbatim>\<open>data\<close> is taken from the answer; \<^verbatim>\<open>error\<close> is not read. The
  \<^verbatim>\<open>catch\<close> is reached by a rejected call alone, since nothing else in the
  \<^verbatim>\<open>try\<close> block throws.
\<close>

definition fetchInvoiceById ::
  "(string \<Rightarrow> invoice_form_raw response awaited) \<Rightarrow> string \<Rightarrow> error + invoice_form option" where
  "fetchInvoiceById client ident =
     (case client ident of
        Rejected e \<Rightarrow> Inl (Error ''Failed to fetch invoice.'')
      | Resolved r \<Rightarrow>
          (case data r of
             None \<Rightarrow> Inr None
           | Some d \<Rightarrow>
               Inr (Some \<lparr> invoice_form.id' = invoice_form_raw.id' d,
                           invoice_form.customer_id = invoice_form_raw.customer_id d,
                           invoice_form.amount = of_int (invoice_form_raw.amount d) / 100,
                           invoice_form.status = invoice_form_raw.status d \<rparr>)))"

subsection \<open>Customers with their totals: \<^verbatim>\<open>fetchFilteredCustomers\<close>\<close>

record customer =
  id' :: string
  name :: string
  email :: string
  image_url :: string

record customers_table = customer +
  total_invoices :: int
  total_pending :: string
  total_paid :: string

record customer_invoice =
  customer_id :: string
  amount :: int
  status :: string

text \<open>The filter string handed to \<^verbatim>\<open>or\<close>.\<close>

definition or_filter :: "string \<Rightarrow> string" where
  "or_filter query = ''name.ilike.%'' @ query @ ''%,email.ilike.%'' @ query @ ''%''"

text \<open>\<^verbatim>\<open>xs.reduce((sum, inv) => sum + inv.amount, 0)\<close>.\<close>

definition reduce_amount :: "customer_invoice list \<Rightarrow> int" where
  "reduce_amount xs = foldl (\<lambda>sum inv. sum + customer_invoice.amount inv) 0 xs"

text \<open>The callback of the aggregating \<^verbatim>\<open>map\<close>, for one customer.\<close>

definition aggregate_customer ::
  "(int \<Rightarrow> string) \<Rightarrow> customer_invoice list \<Rightarrow> customer \<Rightarrow> customers_table" where
  "aggregate_customer formatCurrency invoices c =
     (let custInvoices = filter (\<lambda>inv. customer_invoice.customer_id inv = customer.id' c) invoices;
          total_invoices = int (length custInvoices);
          total_pending = reduce_amount (filter (\<lambda>inv. customer_invoice.status inv = ''pending'') custInvoices);
          total_paid = reduce_amount (filter (\<lambda>inv. customer_invoice.status inv = ''paid'') custInvoices)
      in
        \<lparr> customer.id' = customer.id' c,
          customer.name = customer.name c,
          customer.email = customer.email c,
          customer.image_url = customer.image_url c,
          total_invoices = total_invoices,
          total_pending = formatCurrency total_pending,
          total_paid = formatCurrency total_paid \<rparr>)"

text \<open>
  Two reads: the matching customers, then the invoices of their identifiers. Calling
  \<^verbatim>\<open>map\<close> on \<^verbatim>\<open>customers\<close> when it is \<^verbatim>\<open>null\<close> throws; when \<^verbatim>\<open>invoices\<close> is
  \<^verbatim>\<open>null\<close> the callback throws at its first call, so only when there is a customer.
\<close>

definition fetchFilteredCustomers ::
  "(int \<Rightarrow> string) \<Rightarrow> (string \<Rightarrow> customer list response awaited)
     \<Rightarrow> (string list \<Rightarrow> customer_invoice list response awaited) \<Rightarrow> string
     \<Rightarrow> error + customers_table list" where
  "fetchFilteredCustomers formatCurrency customersClient invoicesClient query =
     (case customersClient (or_filter query) of
        Rejected e \<Rightarrow> Inl e
      | Resolved r \<Rightarrow>
          (if error r \<noteq> None then Inl (Error ''Failed to fetch customer table.'')
           else
             (case data r of
                None \<Rightarrow> Inl TypeError
              | Some customers' \<Rightarrow>
                  (let customerIds = map customer.id' customers' in
                   case invoicesClient customerIds of
                     Rejected e \<Rightarrow> Inl e
                   | Resolved r2 \<Rightarrow>
                       (if error r2 \<noteq> None then Inl (Error ''Failed to fetch invoices for customers.'')
                        else
                          (case data r2 of
                             None \<Rightarrow> (if customers' = [] then Inr [] else Inl TypeError)
                           | Some invoices \<Rightarrow>
                               Inr (map (aggregate_customer formatCurrency invoices) customers')))))))"

subsection \<open>The client-side filter as the specification words it\<close>

text \<open>
  The specification describes the filter of \<^verbatim>\<open>fetchFilteredInvoices\<close> as a
  case-insensitive substring match of the query against five fields. The two definitions
  below follow these words, for comparison with \<open>matches_query\<close>, which follows the
  source: both sides of every comparison are lowered.
\<close>

definition includes_ignoring_case :: "string \<Rightarrow> string \<Rightarrow> bool" where
  "includes_ignoring_case s q = includes' (toLowerCase s) (toLowerCase q)"

definition spec_matches_query :: "string \<Rightarrow> invoices_table \<Rightarrow> bool" where
  "spec_matches_query query invoice \<longleftrightarrow>
     includes_ignoring_case (invoices_table.email invoice) query \<or>
     includes_ignoring_case (toString (invoices_table.amount invoice)) query \<or>
     includes_ignoring_case (invoices_table.date invoice) query \<or>
     includes_ignoring_case (invoices_table.status invoice) query \<or>
     includes_ignoring_case (invoices_table.name invoice) query"

section \<open>Properties\<close>

subsection \<open>The string helpers\<close>

text \<open>
  \<open>includes'\<close> is the substring test: the query occurs as a contiguous sublist.
\<close>

lemma startsWith_prefix: "startsWith s q \<longleftrightarrow> prefix q s"
  by (induction s q rule: startsWith.induct) auto

lemma includes'_sublist: "includes' s q \<longleftrightarrow> sublist q s"
  by (induction s) (simp_all add: startsWith_prefix sublist_Cons_right)

text \<open>The two cases of \<open>nat_toString\<close>, for evaluating it on numerals.\<close>

lemma nat_toString_digit: "n < 10 \<Longrightarrow> nat_toString n = [digit_char n]"
  by (simp add: nat_toString.simps)

lemma nat_toString_more:
  "\<not> n < 10 \<Longrightarrow> nat_toString n = nat_toString (n div 10) @ [digit_char (n mod 10)]"
  by (subst nat_toString.simps) simp

subsection \<open>Page count\<close>

lemma ceiling_sixth: "\<lceil>(of_int n :: rat) / 6\<rceil> = (n + 5) div 6"
proof -
  have "\<lceil>(of_int n :: rat) / of_int 6\<rceil> = - ((- n) div 6)"
    by (simp only: ceiling_divide_eq_div)
  also have "\<dots> = (n + 5) div 6"
    by presburger
  finally show ?thesis by simp
qed

text \<open>
  Claim C6. For every count \<open>n\<close> the client reports, the page-count reader returns the
  ceiling of \<open>n / 6\<close>, that is the least number of pages of six rows that hold \<open>n\<close> rows:
  0 for \<open>n = 0\<close>, 1 for \<open>n\<close> from 1 to 6, 2 for \<open>n\<close> from 7 to 12; a count of
  \<^verbatim>\<open>null\<close> is read as 0 and gives 0 pages.
\<close>

theorem fetchInvoicesPages_ceiling:
  assumes answer: "client (ilike_pattern query) = Resolved \<lparr>error = None, count = c\<rparr>"
    and n: "n = (case c of None \<Rightarrow> 0 | Some v \<Rightarrow> v)"
  shows "\<exists>pages. fetchInvoicesPages client query = Inr pages
           \<and> pages = \<lceil>(of_int n :: rat) / 6\<rceil>
           \<and> 6 * (pages - 1) < n \<and> n \<le> 6 * pages
           \<and> (n = 0 \<longrightarrow> pages = 0)
           \<and> (1 \<le> n \<and> n \<le> 6 \<longrightarrow> pages = 1)
           \<and> (7 \<le> n \<and> n \<le> 12 \<longrightarrow> pages = 2)
           \<and> (c = None \<longrightarrow> pages = 0)"
proof -
  have run: "fetchInvoicesPages client query = Inr \<lceil>(of_int n :: rat) / 6\<rceil>"
    using answer n by (simp add: fetchInvoicesPages_def ITEMS_PER_PAGE_def split: option.splits)
  have "6 * ((n + 5) div 6 - 1) < n" "n \<le> 6 * ((n + 5) div 6)"
    by presburger+
  moreover have "n = 0 \<longrightarrow> (n + 5) div 6 = 0" by simp
  moreover have "1 \<le> n \<and> n \<le> 6 \<longrightarrow> (n + 5) div 6 = 1" by presburger
  moreover have "7 \<le> n \<and> n \<le> 12 \<longrightarrow> (n + 5) div 6 = 2" by presburger
  moreover have "c = None \<longrightarrow> (n + 5) div 6 = 0" using n by simp
  ultimately show ?thesis
    using run by (simp add: ceiling_sixth)
qed

theorem fetchInvoicesPages_ceiling_witness:
  "fetchInvoicesPages (\<lambda>p. Resolved \<lparr>error = None, count = Some 7\<rparr>) ''lee'' = Inr 2
   \<and> fetchInvoicesPages (\<lambda>p. Resolved \<lparr>error = None, count = None\<rparr>) ''lee'' = Inr 0"
  using fetchInvoicesPages_ceiling [of "\<lambda>p. Resolved \<lparr>error = None, count = Some 7\<rparr>" "''lee''" "Some 7" 7]
    fetchInvoicesPages_ceiling [of "\<lambda>p. Resolved \<lparr>error = None, count = None\<rparr>" "''lee''" None 0]
  by auto

subsection \<open>The requested range\<close>

text \<open>
  Claim C8. For every page number \<open>p\<close>, the filtered-invoices reader asks the client for
  the inclusive offset range from \<open>(p - 1) * 6\<close> to \<open>p * 6 - 1\<close>, six rows: what the
  reader returns is decided by the client's answer to the request with exactly these
  bounds (and the \<^verbatim>\<open>ilike\<close> pattern of the query).
\<close>

theorem fetchFilteredInvoices_range:
  assumes "client \<lparr>ilike = ilike_pattern query, range_from = (p - 1) * 6, range_to = p * 6 - 1\<rparr> = answer"
  shows "fetchFilteredInvoices client query p =
           (case answer of
              Rejected e \<Rightarrow> Inl e
            | Resolved r \<Rightarrow>
                if error r \<noteq> None then Inl (Error ''Failed to fetch invoices.'')
                else Inr (filter (matches_query query) (map flatten_invoice (nullish (data r) []))))"
proof -
  have "(p - 1) * 6 + 6 - 1 = p * 6 - 1" by simp
  then show ?thesis
    using assms by (simp add: fetchFilteredInvoices_def ITEMS_PER_PAGE_def Let_def)
qed

text \<open>
  On page 2 a client that answers the range from 6 to 11 alone, and rejects every other
  request, is answered.
\<close>

theorem fetchFilteredInvoices_range_witness:
  "fetchFilteredInvoices
     (\<lambda>req. if range_from req = 6 \<and> range_to req = 11
             then Resolved \<lparr>error = None, data = Some []\<rparr> else Rejected TypeError)
     ''lee'' 2 = Inr []"
  using fetchFilteredInvoices_range
    [of "\<lambda>req. if range_from req = 6 \<and> range_to req = 11
                 then Resolved \<lparr>error = None, data = Some []\<rparr> else Rejected TypeError"
        "''lee''" 2 "Resolved \<lparr>error = None, data = Some []\<rparr>"]
  by (simp add: nullish_def)

subsection \<open>Card summary\<close>

lemma card_loop_sums:
  "card_loop (a, b) rows =
     (a + sum_list (map card_row.amount (filter (\<lambda>inv. card_row.status inv = ''paid'') rows)),
      b + sum_list (map card_row.amount (filter (\<lambda>inv. card_row.status inv = ''pending'') rows)))"
  by (induction rows arbitrary: a b) simp_all

lemma fetchCardData_ok:
  assumes "error r = None" and "data r = Some rows" and "error c = None"
  shows "fetchCardData (Resolved r) (Resolved c) =
           Inr \<lparr> totalPaidInvoices = sum_list (map card_row.amount (filter (\<lambda>inv. card_row.status inv = ''paid'') rows)),
                 totalPendingInvoices = sum_list (map card_row.amount (filter (\<lambda>inv. card_row.status inv = ''pending'') rows)),
                 numberOfInvoices = int (length rows),
                 numberOfCustomers = (case count c of None \<Rightarrow> 0 | Some n \<Rightarrow> n) \<rparr>"
  using assms by (simp add: fetchCardData_def card_loop_sums nullish_def)

text \<open>
  Claim C4. For every list of invoice rows the client returns, the card summary holds the
  sum of the amounts of the rows with status \<open>paid\<close>, the sum of the amounts of the rows
  with status \<open>pending\<close> and the length of the list; the number of customers is the head
  count, and 0 when the head count is \<^verbatim>\<open>null\<close>.
\<close>

theorem fetchCardData_totals:
  assumes "error r = None" and "data r = Some rows" and "error c = None"
  shows "\<exists>cd. fetchCardData (Resolved r) (Resolved c) = Inr cd
           \<and> totalPaidInvoices cd =
               (\<Sum>inv\<leftarrow>filter (\<lambda>inv. card_row.status inv = ''paid'') rows. card_row.amount inv)
           \<and> totalPendingInvoices cd =
               (\<Sum>inv\<leftarrow>filter (\<lambda>inv. card_row.status inv = ''pending'') rows. card_row.amount inv)
           \<and> numberOfInvoices cd = int (length rows)
           \<and> (count c = None \<longrightarrow> numberOfCustomers cd = 0)
           \<and> (\<forall>n. count c = Some n \<longrightarrow> numberOfCustomers cd = n)"
  using fetchCardData_ok [OF assms] by simp

theorem fetchCardData_totals_witness:
  "fetchCardData
     (Resolved \<lparr>error = None,
                data = Some [\<lparr>card_row.amount = 100, card_row.status = ''paid''\<rparr>,
                             \<lparr>card_row.amount = 50, card_row.status = ''pending''\<rparr>,
                             \<lparr>card_row.amount = 25, card_row.status = ''paid''\<rparr>]\<rparr>)
     (Resolved \<lparr>error = None, count = None\<rparr>)
   = Inr \<lparr>totalPaidInvoices = 125, totalPendingInvoices = 50, numberOfInvoices = 3, numberOfCustomers = 0\<rparr>"
  using fetchCardData_totals
    [of "\<lparr>error = None,
                data = Some [\<lparr>card_row.amount = 100, card_row.status = ''paid''\<rparr>,
                             \<lparr>card_row.amount = 50, card_row.status = ''pending''\<rparr>,
                             \<lparr>card_row.amount = 25, card_row.status = ''paid''\<rparr>]\<rparr>"
        "[\<lparr>card_row.amount = 100, card_row.status = ''paid''\<rparr>,
                             \<lparr>card_row.amount = 50, card_row.status = ''pending''\<rparr>,
                             \<lparr>card_row.amount = 25, card_row.status = ''paid''\<rparr>]"
        "\<lparr>error = None, count = None\<rparr>"]
  by auto

lemma amounts_by_status:
  "(\<Sum>i\<leftarrow>rows. card_row.amount i) =
     (\<Sum>i\<leftarrow>filter (\<lambda>i. card_row.status i = ''paid'') rows. card_row.amount i)
   + (\<Sum>i\<leftarrow>filter (\<lambda>i. card_row.status i = ''pending'') rows. card_row.amount i)
   + (\<Sum>i\<leftarrow>filter (\<lambda>i. card_row.status i \<noteq> ''paid'' \<and> card_row.status i \<noteq> ''pending'') rows. card_row.amount i)"
  by (induction rows) auto

text \<open>
  Claim C10. An invoice whose status is neither \<open>paid\<close> nor \<open>pending\<close> is counted in
  \<open>numberOfInvoices\<close> and adds to neither total: the summary of a list with such an
  invoice differs from the summary of the list without it in the count alone. The two
  totals together then fall short of the sum of all amounts as soon as the amounts of
  such invoices sum to more than 0.
\<close>

theorem fetchCardData_other_status:
  assumes "error r = None" and "error c = None"
    and "card_row.status invoice \<noteq> ''paid''" and "card_row.status invoice \<noteq> ''pending''"
    and "rows = xs @ invoice # ys"
  shows "\<exists>cd cd'. fetchCardData (Resolved (r\<lparr>data := Some rows\<rparr>)) (Resolved c) = Inr cd
           \<and> fetchCardData (Resolved (r\<lparr>data := Some (xs @ ys)\<rparr>)) (Resolved c) = Inr cd'
           \<and> numberOfInvoices cd = int (length rows)
           \<and> numberOfInvoices cd = numberOfInvoices cd' + 1
           \<and> totalPaidInvoices cd = totalPaidInvoices cd'
           \<and> totalPendingInvoices cd = totalPendingInvoices cd'
           \<and> (0 < (\<Sum>i\<leftarrow>filter (\<lambda>i. card_row.status i \<noteq> ''paid'' \<and> card_row.status i \<noteq> ''pending'') rows.
                       card_row.amount i)
                \<longrightarrow> totalPaidInvoices cd + totalPendingInvoices cd < (\<Sum>i\<leftarrow>rows. card_row.amount i))"
proof -
  have "error (r\<lparr>data := Some rows\<rparr>) = None" and "data (r\<lparr>data := Some rows\<rparr>) = Some rows"
    using assms(1) by simp_all
  note a = fetchCardData_ok [OF this assms(2)]
  have "error (r\<lparr>data := Some (xs @ ys)\<rparr>) = None"
    and "data (r\<lparr>data := Some (xs @ ys)\<rparr>) = Some (xs @ ys)"
    using assms(1) by simp_all
  note b = fetchCardData_ok [OF this assms(2)]
  show ?thesis
    unfolding a b using assms(3,4,5) amounts_by_status [of rows] by simp
qed

theorem fetchCardData_other_status_witness:
  "fetchCardData
     (Resolved \<lparr>error = None,
                data = Some [\<lparr>card_row.amount = 100, card_row.status = ''paid''\<rparr>,
                             \<lparr>card_row.amount = 70, card_row.status = ''draft''\<rparr>]\<rparr>)
     (Resolved \<lparr>error = None, count = Some 4\<rparr>)
   = Inr \<lparr>totalPaidInvoices = 100, totalPendingInvoices = 0, numberOfInvoices = 2, numberOfCustomers = 4\<rparr>
   \<and> (100::int) + 0 < 100 + 70"
  using fetchCardData_other_status
    [of "\<lparr>error = None, data = None\<rparr>" "\<lparr>error = None, count = Some 4\<rparr>"
        "\<lparr>card_row.amount = 70, card_row.status = ''draft''\<rparr>"
        "[\<lparr>card_row.amount = 100, card_row.status = ''paid''\<rparr>,
          \<lparr>card_row.amount = 70, card_row.status = ''draft''\<rparr>]"
        "[\<lparr>card_row.amount = 100, card_row.status = ''paid''\<rparr>]" "[]"]
  by (auto simp: fetchCardData_def nullish_def)

subsection \<open>Latest invoices\<close>

lemma latest_loop_acc: "latest_loop seen acc rows = acc @ latest_loop seen [] rows"
proof (induction rows arbitrary: seen acc)
  case Nil
  show ?case by simp
next
  case (Cons invoice rest)
  show ?case
  proof (cases "truthy (customerId_of invoice) \<and> customerId_of invoice \<notin> seen")
    case True
    have "latest_loop seen acc (invoice # rest)
            = (acc @ [invoice]) @ latest_loop (insert (customerId_of invoice) seen) [] rest"
      using True Cons.IH [of "insert (customerId_of invoice) seen" "acc @ [invoice]"] by simp
    moreover have "latest_loop seen [] (invoice # rest)
            = [invoice] @ latest_loop (insert (customerId_of invoice) seen) [] rest"
      using True Cons.IH [of "insert (customerId_of invoice) seen" "[invoice]"] by simp
    ultimately show ?thesis by simp
  next
    case False
    then show ?thesis
      using Cons.IH [of seen acc] by auto
  qed
qed

lemma latest_loop_Cons:
  "latest_loop seen [] (invoice # rest) =
     (if truthy (customerId_of invoice) \<and> customerId_of invoice \<notin> seen
      then invoice # latest_loop (insert (customerId_of invoice) seen) [] rest
      else latest_loop seen [] rest)"
  using latest_loop_acc [of "insert (customerId_of invoice) seen" "[invoice]" rest]
  by (simp add: Let_def)

lemma latest_loop_first:
  "filter (\<lambda>invoice. customerId_of invoice = c) (latest_loop seen [] rows) =
     (if truthy c \<and> c \<notin> seen then take 1 (filter (\<lambda>invoice. customerId_of invoice = c) rows) else [])"
proof (induction rows arbitrary: seen)
  case Nil
  show ?case by simp
next
  case (Cons invoice rest)
  show ?case
    unfolding latest_loop_Cons using Cons.IH by auto
qed

lemma latest_loop_kept:
  "invoice \<in> set (latest_loop seen [] rows) \<Longrightarrow>
     invoice \<in> set rows \<and> truthy (customerId_of invoice) \<and> customerId_of invoice \<notin> seen"
proof (induction rows arbitrary: seen)
  case Nil
  then show ?case by simp
next
  case (Cons r rest)
  then show ?case
    unfolding latest_loop_Cons by (fastforce split: if_splits)
qed

lemma latest_loop_distinct: "distinct (map customerId_of (latest_loop seen [] rows))"
proof (induction rows arbitrary: seen)
  case Nil
  show ?case by simp
next
  case (Cons r rest)
  show ?case
    unfolding latest_loop_Cons using Cons.IH by (auto dest: latest_loop_kept)
qed

lemma latest_loop_subseq: "subseq (latest_loop seen [] rows) rows"
proof (induction rows arbitrary: seen)
  case Nil
  show ?case by simp
next
  case (Cons r rest)
  show ?case
    unfolding latest_loop_Cons using Cons.IH by auto
qed

lemma latest_loop_filter:
  "latest_loop seen [] (filter (\<lambda>invoice. truthy (customerId_of invoice)) rows) = latest_loop seen [] rows"
proof (induction rows arbitrary: seen)
  case Nil
  show ?case by simp
next
  case (Cons r rest)
  show ?case
    using Cons.IH by (simp add: latest_loop_Cons del: latest_loop.simps(2))
qed

lemma truthy_customerId_of:
  "truthy (customerId_of invoice) \<longleftrightarrow>
     (\<exists>customer cid. first_related (latest_invoice_raw.customer_id invoice) = Some customer
        \<and> customer_rel.id' customer = Some cid \<and> cid \<noteq> [])"
  by (auto simp: truthy_def customerId_of_def split: option.splits)

lemma fetchLatestInvoices_ok:
  assumes "error r = None" and "data r = Some rows"
  shows "fetchLatestInvoices formatCurrency (Resolved r) =
           Inr (map (to_latest_invoice formatCurrency) (latest_loop {} [] rows))"
  using assms by (simp add: fetchLatestInvoices_def)

text \<open>
  Claim C3. For every list of invoice rows the client returns, the rows of the
  latest-invoices reader come, in the order of the input, from invoices with pairwise
  different customer identifiers, and of the invoices that share a customer identifier
  exactly the first one of the input is kept. A customer identifier is a value the guard
  \<^verbatim>\<open>customerId && ...\<close> reads as true: a string that is not empty.
\<close>

theorem fetchLatestInvoices_first_per_customer:
  assumes "error r = None" and "data r = Some rows"
  shows "\<exists>kept. fetchLatestInvoices formatCurrency (Resolved r) = Inr (map (to_latest_invoice formatCurrency) kept)
           \<and> subseq kept rows
           \<and> distinct (map customerId_of kept)
           \<and> (\<forall>c. truthy c \<longrightarrow>
                  filter (\<lambda>invoice. customerId_of invoice = c) kept =
                  take 1 (filter (\<lambda>invoice. customerId_of invoice = c) rows))"
proof (intro exI conjI)
  show "fetchLatestInvoices formatCurrency (Resolved r) =
          Inr (map (to_latest_invoice formatCurrency) (latest_loop {} [] rows))"
    by (rule fetchLatestInvoices_ok [OF assms])
  show "subseq (latest_loop {} [] rows) rows"
    by (rule latest_loop_subseq)
  show "distinct (map customerId_of (latest_loop {} [] rows))"
    by (rule latest_loop_distinct)
  show "\<forall>c. truthy c \<longrightarrow>
          filter (\<lambda>invoice. customerId_of invoice = c) (latest_loop {} [] rows) =
          take 1 (filter (\<lambda>invoice. customerId_of invoice = c) rows)"
    by (simp add: latest_loop_first)
qed

theorem fetchLatestInvoices_first_per_customer_witness:
  "fetchLatestInvoices toString
     (Resolved \<lparr>error = None,
        data = Some
          [\<lparr>latest_invoice_raw.id' = ''i1'', amount = 300, date = ''2024-03-01'',
            customer_id = JObject \<lparr>customer_rel.id' = Some ''c1'', name = Some ''Ann'', image_url = None, email = Some ''ann@x.io''\<rparr>\<rparr>,
           \<lparr>latest_invoice_raw.id' = ''i2'', amount = 200, date = ''2024-02-01'',
            customer_id = JArray [\<lparr>customer_rel.id' = Some ''c2'', name = Some ''Bob'', image_url = None, email = None\<rparr>]\<rparr>,
           \<lparr>latest_invoice_raw.id' = ''i3'', amount = 100, date = ''2024-01-01'',
            customer_id = JObject \<lparr>customer_rel.id' = Some ''c1'', name = Some ''Ann'', image_url = None, email = Some ''ann@x.io''\<rparr>\<rparr>]\<rparr>)
   = Inr [\<lparr>latest_invoice.id' = ''i1'', amount = ''300'', name = ''Ann'', image_url = [], email = ''ann@x.io''\<rparr>,
          \<lparr>latest_invoice.id' = ''i2'', amount = ''200'', name = ''Bob'', image_url = [], email = []\<rparr>]"
  using fetchLatestInvoices_first_per_customer
    [of "\<lparr>error = None, data = Some
          [\<lparr>latest_invoice_raw.id' = ''i1'', amount = 300, date = ''2024-03-01'',
            customer_id = JObject \<lparr>customer_rel.id' = Some ''c1'', name = Some ''Ann'', image_url = None, email = Some ''ann@x.io''\<rparr>\<rparr>,
           \<lparr>latest_invoice_raw.id' = ''i2'', amount = 200, date = ''2024-02-01'',
            customer_id = JArray [\<lparr>customer_rel.id' = Some ''c2'', name = Some ''Bob'', image_url = None, email = None\<rparr>]\<rparr>,
           \<lparr>latest_invoice_raw.id' = ''i3'', amount = 100, date = ''2024-01-01'',
            customer_id = JObject \<lparr>customer_rel.id' = Some ''c1'', name = Some ''Ann'', image_url = None, email = Some ''ann@x.io''\<rparr>\<rparr>]\<rparr>"
        "[\<lparr>latest_invoice_raw.id' = ''i1'', amount = 300, date = ''2024-03-01'',
            customer_id = JObject \<lparr>customer_rel.id' = Some ''c1'', name = Some ''Ann'', image_url = None, email = Some ''ann@x.io''\<rparr>\<rparr>,
           \<lparr>latest_invoice_raw.id' = ''i2'', amount = 200, date = ''2024-02-01'',
            customer_id = JArray [\<lparr>customer_rel.id' = Some ''c2'', name = Some ''Bob'', image_url = None, email = None\<rparr>]\<rparr>,
           \<lparr>latest_invoice_raw.id' = ''i3'', amount = 100, date = ''2024-01-01'',
            customer_id = JObject \<lparr>customer_rel.id' = Some ''c1'', name = Some ''Ann'', image_url = None, email = Some ''ann@x.io''\<rparr>\<rparr>]" toString]
  by (simp add: fetchLatestInvoices_def to_latest_invoice_def customerId_of_def truthy_def nullish_def
        toString_def nat_toString_digit nat_toString_more digit_char_def)

text \<open>
  Claim C9. An invoice whose joined customer is absent, or whose customer identifier is
  \<^verbatim>\<open>null\<close> or empty, is dropped by the latest-invoices reader: the result is the one
  the reader gives on the list without these invoices, and every row of the result comes
  from an invoice of the input that has a customer identifier. No row with empty
  customer fields stands in for a dropped invoice.
\<close>

theorem fetchLatestInvoices_drops_without_customerId:
  assumes "error r = None" and "data r = Some rows"
  shows "fetchLatestInvoices formatCurrency (Resolved r) =
           fetchLatestInvoices formatCurrency
             (Resolved (r\<lparr>data := Some (filter (\<lambda>invoice. truthy (customerId_of invoice)) rows)\<rparr>))
         \<and> (\<exists>kept. fetchLatestInvoices formatCurrency (Resolved r) =
                      Inr (map (to_latest_invoice formatCurrency) kept)
                \<and> (\<forall>invoice \<in> set kept. invoice \<in> set rows \<and> truthy (customerId_of invoice)))
         \<and> (\<forall>invoice. \<not> truthy (customerId_of invoice) \<longleftrightarrow>
                first_related (latest_invoice_raw.customer_id invoice) = None
                \<or> (\<exists>customer. first_related (latest_invoice_raw.customer_id invoice) = Some customer
                      \<and> (customer_rel.id' customer = None \<or> customer_rel.id' customer = Some [])))"
proof (intro conjI)
  have "error (r\<lparr>data := Some (filter (\<lambda>invoice. truthy (customerId_of invoice)) rows)\<rparr>) = None"
    and "data (r\<lparr>data := Some (filter (\<lambda>invoice. truthy (customerId_of invoice)) rows)\<rparr>)
           = Some (filter (\<lambda>invoice. truthy (customerId_of invoice)) rows)"
    using assms(1) by simp_all
  note filtered = fetchLatestInvoices_ok [OF this]
  show "fetchLatestInvoices formatCurrency (Resolved r) =
          fetchLatestInvoices formatCurrency
            (Resolved (r\<lparr>data := Some (filter (\<lambda>invoice. truthy (customerId_of invoice)) rows)\<rparr>))"
    unfolding filtered fetchLatestInvoices_ok [OF assms] latest_loop_filter ..
  show "\<exists>kept. fetchLatestInvoices formatCurrency (Resolved r) =
                  Inr (map (to_latest_invoice formatCurrency) kept)
            \<and> (\<forall>invoice \<in> set kept. invoice \<in> set rows \<and> truthy (customerId_of invoice))"
    using fetchLatestInvoices_ok [OF assms] latest_loop_kept by blast
  show "\<forall>invoice. \<not> truthy (customerId_of invoice) \<longleftrightarrow>
          first_related (latest_invoice_raw.customer_id invoice) = None
          \<or> (\<exists>customer. first_related (latest_invoice_raw.customer_id invoice) = Some customer
                \<and> (customer_rel.id' customer = None \<or> customer_rel.id' customer = Some []))"
    by (auto simp: truthy_def customerId_of_def split: option.splits)
qed

theorem fetchLatestInvoices_drops_without_customerId_witness:
  "fetchLatestInvoices toString
     (Resolved \<lparr>error = None,
        data = Some
          [\<lparr>latest_invoice_raw.id' = ''i1'', amount = 500, date = ''2024-05-01'', customer_id = JNull\<rparr>,
           \<lparr>latest_invoice_raw.id' = ''i2'', amount = 400, date = ''2024-04-01'', customer_id = JArray []\<rparr>,
           \<lparr>latest_invoice_raw.id' = ''i3'', amount = 300, date = ''2024-03-01'',
            customer_id = JObject \<lparr>customer_rel.id' = None, name = Some ''Cy'', image_url = None, email = None\<rparr>\<rparr>,
           \<lparr>latest_invoice_raw.id' = ''i4'', amount = 200, date = ''2024-02-01'',
            customer_id = JObject \<lparr>customer_rel.id' = Some [], name = Some ''Di'', image_url = None, email = None\<rparr>\<rparr>,
           \<lparr>latest_invoice_raw.id' = ''i5'', amount = 100, date = ''2024-01-01'',
            customer_id = JObject \<lparr>customer_rel.id' = Some ''c5'', name = Some ''Ed'', image_url = None, email = None\<rparr>\<rparr>]\<rparr>)
   = Inr [\<lparr>latest_invoice.id' = ''i5'', amount = ''100'', name = ''Ed'', image_url = [], email = []\<rparr>]"
  using fetchLatestInvoices_drops_without_customerId
    [of "\<lparr>error = None, data = Some
          [\<lparr>latest_invoice_raw.id' = ''i1'', amount = 500, date = ''2024-05-01'', customer_id = JNull\<rparr>,
           \<lparr>latest_invoice_raw.id' = ''i2'', amount = 400, date = ''2024-04-01'', customer_id = JArray []\<rparr>,
           \<lparr>latest_invoice_raw.id' = ''i3'', amount = 300, date = ''2024-03-01'',
            customer_id = JObject \<lparr>customer_rel.id' = None, name = Some ''Cy'', image_url = None, email = None\<rparr>\<rparr>,
           \<lparr>latest_invoice_raw.id' = ''i4'', amount = 200, date = ''2024-02-01'',
            customer_id = JObject \<lparr>customer_rel.id' = Some [], name = Some ''Di'', image_url = None, email = None\<rparr>\<rparr>,
           \<lparr>latest_invoice_raw.id' = ''i5'', amount = 100, date = ''2024-01-01'',
            customer_id = JObject \<lparr>customer_rel.id' = Some ''c5'', name = Some ''Ed'', image_url = None, email = None\<rparr>\<rparr>]\<rparr>"
        "[\<lparr>latest_invoice_raw.id' = ''i1'', amount = 500, date = ''2024-05-01'', customer_id = JNull\<rparr>,
           \<lparr>latest_invoice_raw.id' = ''i2'', amount = 400, date = ''2024-04-01'', customer_id = JArray []\<rparr>,
           \<lparr>latest_invoice_raw.id' = ''i3'', amount = 300, date = ''2024-03-01'',
            customer_id = JObject \<lparr>customer_rel.id' = None, name = Some ''Cy'', image_url = None, email = None\<rparr>\<rparr>,
           \<lparr>latest_invoice_raw.id' = ''i4'', amount = 200, date = ''2024-02-01'',
            customer_id = JObject \<lparr>customer_rel.id' = Some [], name = Some ''Di'', image_url = None, email = None\<rparr>\<rparr>,
           \<lparr>latest_invoice_raw.id' = ''i5'', amount = 100, date = ''2024-01-01'',
            customer_id = JObject \<lparr>customer_rel.id' = Some ''c5'', name = Some ''Ed'', image_url = None, email = None\<rparr>\<rparr>]" toString]
  by (simp add: fetchLatestInvoices_def to_latest_invoice_def customerId_of_def truthy_def nullish_def
        toString_def nat_toString_digit nat_toString_more digit_char_def)

subsection \<open>Customers with their totals\<close>

lemma foldl_amount:
  "foldl (\<lambda>sum i. sum + customer_invoice.amount i) a xs = a + (\<Sum>i\<leftarrow>xs. customer_invoice.amount i)"
  by (induction xs arbitrary: a) simp_all

lemma reduce_amount_sum: "reduce_amount xs = (\<Sum>i\<leftarrow>xs. customer_invoice.amount i)"
  by (simp add: reduce_amount_def foldl_amount)

text \<open>
  Claim C7. For every matched customer, the filtered-customers reader takes the fetched
  invoices whose \<^verbatim>\<open>customer_id\<close> is the customer's identifier and returns, next to
  the customer's own columns, their number as \<open>total_invoices\<close>, the formatted sum of the
  amounts of those with status \<open>pending\<close> as \<open>total_pending\<close> and the formatted sum of the
  amounts of those with status \<open>paid\<close> as \<open>total_paid\<close>. The instance after the theorem
  is the customer with the invoices 100 (paid), 50 (pending) and 25 (paid): 3 invoices,
  125 paid, 50 pending.
\<close>

theorem fetchFilteredCustomers_totals:
  assumes "customersClient (or_filter query) = Resolved \<lparr>error = None, data = Some cs\<rparr>"
    and "invoicesClient (map customer.id' cs) = Resolved \<lparr>error = None, data = Some invoices\<rparr>"
  shows "\<exists>out. fetchFilteredCustomers formatCurrency customersClient invoicesClient query = Inr out
           \<and> length out = length cs
           \<and> (\<forall>k < length cs.
                 let own = filter (\<lambda>i. customer_invoice.customer_id i = customer.id' (cs ! k)) invoices
                 in customer.id' (out ! k) = customer.id' (cs ! k)
                  \<and> customer.name (out ! k) = customer.name (cs ! k)
                  \<and> customer.email (out ! k) = customer.email (cs ! k)
                  \<and> customer.image_url (out ! k) = customer.image_url (cs ! k)
                  \<and> total_invoices (out ! k) = int (length own)
                  \<and> total_pending (out ! k) =
                      formatCurrency (\<Sum>i\<leftarrow>filter (\<lambda>i. customer_invoice.status i = ''pending'') own. customer_invoice.amount i)
                  \<and> total_paid (out ! k) =
                      formatCurrency (\<Sum>i\<leftarrow>filter (\<lambda>i. customer_invoice.status i = ''paid'') own. customer_invoice.amount i))"
proof -
  have "fetchFilteredCustomers formatCurrency customersClient invoicesClient query =
          Inr (map (aggregate_customer formatCurrency invoices) cs)"
    using assms by (simp add: fetchFilteredCustomers_def)
  then show ?thesis
    by (simp add: aggregate_customer_def reduce_amount_sum Let_def)
qed

theorem fetchFilteredCustomers_totals_witness:
  "fetchFilteredCustomers toString
     (\<lambda>f. Resolved \<lparr>error = None,
             data = Some [\<lparr>customer.id' = ''c1'', name = ''Ann'', email = ''ann@x.io'', image_url = ''/a.png''\<rparr>,
                          \<lparr>customer.id' = ''c2'', name = ''Bob'', email = ''bob@x.io'', image_url = ''/b.png''\<rparr>]\<rparr>)
     (\<lambda>ids. if ids = [''c1'', ''c2'']
            then Resolved \<lparr>error = None,
                   data = Some [\<lparr>customer_id = ''c1'', amount = 100, status = ''paid''\<rparr>,
                                \<lparr>customer_id = ''c2'', amount = 7, status = ''paid''\<rparr>,
                                \<lparr>customer_id = ''c1'', amount = 50, status = ''pending''\<rparr>,
                                \<lparr>customer_id = ''c1'', amount = 25, status = ''paid''\<rparr>]\<rparr>
            else Rejected TypeError)
     ''x''
   = Inr [\<lparr>customer.id' = ''c1'', name = ''Ann'', email = ''ann@x.io'', image_url = ''/a.png'',
            total_invoices = 3, total_pending = ''50'', total_paid = ''125''\<rparr>,
          \<lparr>customer.id' = ''c2'', name = ''Bob'', email = ''bob@x.io'', image_url = ''/b.png'',
            total_invoices = 1, total_pending = ''0'', total_paid = ''7''\<rparr>]"
  using fetchFilteredCustomers_totals
    [of "\<lambda>f. Resolved \<lparr>error = None,
             data = Some [\<lparr>customer.id' = ''c1'', name = ''Ann'', email = ''ann@x.io'', image_url = ''/a.png''\<rparr>,
                          \<lparr>customer.id' = ''c2'', name = ''Bob'', email = ''bob@x.io'', image_url = ''/b.png''\<rparr>]\<rparr>"
        "''x''"
        "[\<lparr>customer.id' = ''c1'', name = ''Ann'', email = ''ann@x.io'', image_url = ''/a.png''\<rparr>,
                          \<lparr>customer.id' = ''c2'', name = ''Bob'', email = ''bob@x.io'', image_url = ''/b.png''\<rparr>]"
        "\<lambda>ids. if ids = [''c1'', ''c2'']
            then Resolved \<lparr>error = None,
                   data = Some [\<lparr>customer_id = ''c1'', amount = 100, status = ''paid''\<rparr>,
                                \<lparr>customer_id = ''c2'', amount = 7, status = ''paid''\<rparr>,
                                \<lparr>customer_id = ''c1'', amount = 50, status = ''pending''\<rparr>,
                                \<lparr>customer_id = ''c1'', amount = 25, status = ''paid''\<rparr>]\<rparr>
            else Rejected TypeError"
        "[\<lparr>customer_id = ''c1'', amount = 100, status = ''paid''\<rparr>,
                                \<lparr>customer_id = ''c2'', amount = 7, status = ''paid''\<rparr>,
                                \<lparr>customer_id = ''c1'', amount = 50, status = ''pending''\<rparr>,
                                \<lparr>customer_id = ''c1'', amount = 25, status = ''paid''\<rparr>]"
        toString]
  by (simp add: fetchFilteredCustomers_def aggregate_customer_def reduce_amount_def
        toString_def nat_toString_digit nat_toString_more digit_char_def)

subsection \<open>Invoice by id\<close>

text \<open>
  Claim C5. When the client's answer carries no row, the invoice-by-id reader returns
  \<^verbatim>\<open>null\<close> and throws nothing; when it carries a row, the reader returns that row with
  its amount divided by 100, so a stored amount of 10000 is returned as 100.
\<close>

theorem fetchInvoiceById_result:
  assumes "client ident = Resolved r"
  shows "(data r = None \<longrightarrow> fetchInvoiceById client ident = Inr None)
       \<and> (\<forall>d. data r = Some d \<longrightarrow>
             fetchInvoiceById client ident =
               Inr (Some \<lparr> invoice_form.id' = invoice_form_raw.id' d,
                           customer_id = invoice_form_raw.customer_id d,
                           amount = of_int (invoice_form_raw.amount d) / 100,
                           status = invoice_form_raw.status d \<rparr>))
       \<and> (\<forall>d. data r = Some d \<and> invoice_form_raw.amount d = 10000 \<longrightarrow>
             (\<exists>form. fetchInvoiceById client ident = Inr (Some form) \<and> invoice_form.amount form = 100))"
  using assms by (simp add: fetchInvoiceById_def)

theorem fetchInvoiceById_result_witness:
  "fetchInvoiceById (\<lambda>i. Resolved \<lparr>error = None, data = None\<rparr>) ''missing'' = Inr None
   \<and> fetchInvoiceById
        (\<lambda>i. Resolved \<lparr>error = None,
                data = Some \<lparr>invoice_form_raw.id' = ''i1'', customer_id = ''c1'', amount = 10000, status = ''paid''\<rparr>\<rparr>)
        ''i1''
      = Inr (Some \<lparr>invoice_form.id' = ''i1'', customer_id = ''c1'', amount = 100, status = ''paid''\<rparr>)"
  using fetchInvoiceById_result [of "\<lambda>i. Resolved \<lparr>error = None, data = None\<rparr>" "''missing''" "\<lparr>error = None, data = None\<rparr>"]
    fetchInvoiceById_result
      [of "\<lambda>i. Resolved \<lparr>error = None,
                data = Some \<lparr>invoice_form_raw.id' = ''i1'', customer_id = ''c1'', amount = 10000, status = ''paid''\<rparr>\<rparr>"
          "''i1''"
          "\<lparr>error = None,
                data = Some \<lparr>invoice_form_raw.id' = ''i1'', customer_id = ''c1'', amount = 10000, status = ''paid''\<rparr>\<rparr>"]
  by simp

subsection \<open>Error values of the client\<close>

text \<open>
  Claim C1, at the input where the code departs from it. The claim: whenever a read
  answers with an error value, the reader throws the generic error and returns nothing.
  The lemmas after the theorem show this for every reader that tests \<^verbatim>\<open>error\<close>.
  \<^verbatim>\<open>fetchInvoiceById\<close> takes only \<^verbatim>\<open>data\<close> from the answer: on an answer with an
  error value and no row it returns \<^verbatim>\<open>null\<close>.
\<close>

theorem fetchInvoiceById_error_value:
  "fetchInvoiceById
     (\<lambda>i. Resolved \<lparr>error = Some (BackendError ''connection refused''), data = None\<rparr>) ''i1''
   = Inr None"
  by (simp add: fetchInvoiceById_def)

lemma fetchRevenue_error_value:
  "error r \<noteq> None \<Longrightarrow> fetchRevenue (Resolved r) = Inl (Error ''Failed to fetch revenue data.'')"
  by (simp add: fetchRevenue_def)

lemma fetchLatestInvoices_error_value:
  "error r \<noteq> None \<Longrightarrow>
     fetchLatestInvoices formatCurrency (Resolved r) = Inl (Error ''Failed to fetch the latest invoices.'')"
  by (simp add: fetchLatestInvoices_def)

lemma fetchCardData_error_value:
  "error r \<noteq> None \<Longrightarrow> fetchCardData (Resolved r) customersAnswer = Inl (Error ''Failed to fetch card data.'')"
  by (simp add: fetchCardData_def)

lemma fetchCardData_count_error_value:
  "error r = None \<Longrightarrow> error c \<noteq> None \<Longrightarrow>
     fetchCardData (Resolved r) (Resolved c) = Inl (Error ''Failed to fetch customer count.'')"
  by (simp_all add: fetchCardData_def split: prod.splits)

lemma fetchFilteredInvoices_error_value:
  "client \<lparr>ilike = ilike_pattern query, range_from = (p - 1) * 6, range_to = p * 6 - 1\<rparr> = Resolved r \<Longrightarrow>
   error r \<noteq> None \<Longrightarrow>
     fetchFilteredInvoices client query p = Inl (Error ''Failed to fetch invoices.'')"
  by (simp add: fetchFilteredInvoices_def ITEMS_PER_PAGE_def Let_def)

lemma fetchInvoicesPages_error_value:
  "client (ilike_pattern query) = Resolved r \<Longrightarrow> error r \<noteq> None \<Longrightarrow>
     fetchInvoicesPages client query = Inl (Error ''Failed to fetch total number of invoices.'')"
  by (simp add: fetchInvoicesPages_def)

lemma fetchCustomers_error_value:
  "error r \<noteq> None \<Longrightarrow> fetchCustomers (Resolved r) = Inl (Error ''Failed to fetch all customers.'')"
  by (simp add: fetchCustomers_def)

lemma fetchFilteredCustomers_error_value:
  "customersClient (or_filter query) = Resolved r \<Longrightarrow> error r \<noteq> None \<Longrightarrow>
     fetchFilteredCustomers formatCurrency customersClient invoicesClient query
       = Inl (Error ''Failed to fetch customer table.'')"
  by (simp add: fetchFilteredCustomers_def)

lemma fetchFilteredCustomers_invoices_error_value:
  "customersClient (or_filter query) = Resolved r \<Longrightarrow> error r = None \<Longrightarrow> data r = Some cs \<Longrightarrow>
   invoicesClient (map customer.id' cs) = Resolved r2 \<Longrightarrow> error r2 \<noteq> None \<Longrightarrow>
     fetchFilteredCustomers formatCurrency customersClient invoicesClient query
       = Inl (Error ''Failed to fetch invoices for customers.'')"
  by (simp_all add: fetchFilteredCustomers_def)

lemma fetchInvoiceById_never_reads_error:
  "fetchInvoiceById (\<lambda>i. Resolved (r\<lparr>error := e\<rparr>)) ident = fetchInvoiceById (\<lambda>i. Resolved r) ident"
  by (simp add: fetchInvoiceById_def)

subsection \<open>The client-side filter\<close>

text \<open>
  Claim C2, at an input where the code departs from it. The claim: a row is kept exactly
  when the query is a case-insensitive substring of one of the five fields. The source
  lowers the name and the status but compares them with the query as typed: for the query
  \<open>Lee\<close> the invoice of the customer Lee Robinson is filtered out, although the query
  is a case-insensitive substring of the name.
\<close>

theorem fetchFilteredInvoices_uppercase_query:
  "fetchFilteredInvoices
     (\<lambda>req. Resolved \<lparr>error = None,
        data = Some [\<lparr>invoice_joined.id' = ''i1'', amount = 500, date = ''2024-01-01'', status = ''paid'',
                      customers = JObject \<lparr>customer_fields.name = Some ''Lee Robinson'',
                                            email = Some ''lr@x.io'', image_url = Some ''/lee.png''\<rparr>\<rparr>]\<rparr>)
     ''Lee'' 1
   = Inr []
   \<and> includes_ignoring_case ''Lee Robinson'' ''Lee''
   \<and> spec_matches_query ''Lee''
        \<lparr>invoices_table.id' = ''i1'', amount = 500, date = ''2024-01-01'', status = ''paid'',
         name = ''Lee Robinson'', email = ''lr@x.io'', image_url = ''/lee.png''\<rparr>"
  by (simp add: fetchFilteredInvoices_def ITEMS_PER_PAGE_def Let_def nullish_def flatten_invoice_def
        matches_query_def spec_matches_query_def includes_ignoring_case_def
        toLowerCase_def toLowerCase_char_def
        toString_def nat_toString_digit nat_toString_more digit_char_def)

text \<open>The status disjunct has the same shape: the status \<open>paid\<close> is not found by the query \<open>PAID\<close>.\<close>

lemma matches_query_uppercase_status:
  "\<not> matches_query ''PAID''
        \<lparr>invoices_table.id' = ''i2'', amount = 500, date = ''2024-01-01'', status = ''paid'',
         name = ''Ann'', email = ''ann@x.io'', image_url = []\<rparr>
   \<and> includes_ignoring_case ''paid'' ''PAID''"
  by (simp add: matches_query_def includes_ignoring_case_def toLowerCase_def toLowerCase_char_def
        toString_def nat_toString_digit nat_toString_more digit_char_def)

end
